theory Spec2Isabelle
  imports Complex_Main
begin

section \<open>Data model\<close>

text \<open>
  The development embeds \<^verbatim>\<open>aso/optimisation_problem.py\<close> and
  \<^verbatim>\<open>aso/optimisation_result.py\<close>.

  Scalars: the program computes with IEEE doubles. The embedding is polymorphic in the
  scalar type and asks for a field, so \<open>+\<close>, \<open>-\<close>, \<open>*\<close> and \<open>/\<close> are exact: rounding,
  \<open>nan\<close> and \<open>inf\<close> are outside the model, and so is what the program makes of a
  division by \<open>2 * dx = 0\<close>. Arrays hold such scalars, as a floating-point array does.
  One-dimensional arrays are lists, a two-dimensional array is the list of its rows.
  Where a statement is about the numbers a finite-difference quotient is made of, the
  gradient of the objective is modelled a second time with rounding, the dtype of the array
  and the zero divisor made explicit (section "The objective gradient in the arithmetic of
  the machine"); the statements about what a call raises, which arrays it writes and what it
  does to the counter do not depend on the arithmetic.

  Callables (objective, constraints and their gradients) are total functions on the
  contents of the array they receive: they are deterministic, raise nothing, keep no
  reference to their argument and do not write to it. A gradient callable returns a new
  array: \<^verbatim>\<open>grad += lm[i] * grad_g[i]\<close> in \<^verbatim>\<open>compute_grad_lagrange_function\<close>
  works in place on the array the objective-gradient callable returned, and a callable that
  hands back its own argument would have \<open>x\<close> overwritten there; the model does not cover
  such a callable.
\<close>

datatype error =
    UnconstrainedProblem | IndexError | ValueError | ZeroDivisionError | AttributeError
  | FrozenInstanceError

text \<open>\<^verbatim>\<open>lower_bounds: NDArray | float | None\<close>: the two non-\<open>None\<close> shapes.\<close>

datatype 'a bound = BoundArray "'a list" | BoundFloat 'a

text \<open>
  The attributes of \<^verbatim>\<open>OptimisationProblem\<close>. The "private" attributes
  \<^verbatim>\<open>_objective\<close>, \<^verbatim>\<open>_grad_objective\<close>, ... carry the prefix \<open>p_\<close> here
  (an identifier cannot start with an underscore).
\<close>

record 'a OptimisationProblem =
  p_objective :: "'a list \<Rightarrow> 'a"
  p_grad_objective :: "('a list \<Rightarrow> 'a list) option"
  p_i_constraints :: "('a list \<Rightarrow> 'a) list option"
  p_grad_i_constraints :: "('a list \<Rightarrow> 'a list) list option"
  p_e_constraints :: "('a list \<Rightarrow> 'a) list option"
  p_grad_e_constraints :: "('a list \<Rightarrow> 'a list) list option"
  lb :: "'a bound option"
  ub :: "'a bound option"
  minima :: "'a list list option"
  grad_constraints_evaluations :: int

text \<open>
  \<^verbatim>\<open>__init__\<close> stores its nine arguments and sets the counter to 0. It has no
  \<^verbatim>\<open>raise\<close>; the result type still has the error summand so that "construction
  fails" is a statement about this function.
\<close>

definition init ::
  "('a list \<Rightarrow> 'a) \<Rightarrow> ('a list \<Rightarrow> 'a list) option \<Rightarrow> 'a bound option \<Rightarrow> 'a bound option \<Rightarrow>
   ('a list \<Rightarrow> 'a) list option \<Rightarrow> ('a list \<Rightarrow> 'a list) list option \<Rightarrow>
   ('a list \<Rightarrow> 'a) list option \<Rightarrow> ('a list \<Rightarrow> 'a list) list option \<Rightarrow>
   'a list list option \<Rightarrow> error + 'a OptimisationProblem" where
  "init objective grad_objective lower_bounds upper_bounds i_constraints grad_i_constraints
        e_constraints grad_e_constraints minima_arg =
     Inr \<lparr> p_objective = objective,
           p_grad_objective = grad_objective,
           p_i_constraints = i_constraints,
           p_grad_i_constraints = grad_i_constraints,
           p_e_constraints = e_constraints,
           p_grad_e_constraints = grad_e_constraints,
           lb = lower_bounds,
           ub = upper_bounds,
           minima = minima_arg,
           grad_constraints_evaluations = 0 \<rparr>"

text \<open>\<^verbatim>\<open>lst or []\<close>: \<open>None\<close> and the empty list both give the empty list.\<close>

definition or_empty :: "'b list option \<Rightarrow> 'b list" where
  "or_empty l = (case l of None \<Rightarrow> [] | Some xs \<Rightarrow> xs)"

definition m :: "'a OptimisationProblem \<Rightarrow> nat" where
  "m p = length (or_empty (p_i_constraints p))"

definition me :: "'a OptimisationProblem \<Rightarrow> nat" where
  "me p = length (or_empty (p_e_constraints p))"

definition constrained :: "'a OptimisationProblem \<Rightarrow> bool" where
  "constrained p = (m p + me p > 0)"

section \<open>Arrays, the store, and what a call leaves behind\<close>

text \<open>
  The finite-difference routines write into an array in place, so arrays that a caller can
  still see live in a store: a list of arrays, a reference being the position. Allocation
  appends. A reference \<open>r\<close> is live in \<open>st\<close> when \<open>r < length st\<close>; the design vector
  \<open>x\<close> of a call is a live reference, and \<open>st ! x\<close> is its contents.
\<close>

type_synonym ref = nat
type_synonym 'a store = "'a list list"

definition present :: "'a store \<Rightarrow> ref \<Rightarrow> bool" where
  "present st r = (r < length st)"

text \<open>\<^verbatim>\<open>np.copy(x)\<close>: a new array with the contents of \<open>x\<close>.\<close>

definition np_copy :: "'a store \<Rightarrow> ref \<Rightarrow> 'a store \<times> ref" where
  "np_copy st r = (st @ [st ! r], length st)"

text \<open>\<^verbatim>\<open>a[i] = v\<close> for an index the loops take from \<^verbatim>\<open>range(a.size)\<close>.\<close>

definition setitem :: "'a store \<Rightarrow> ref \<Rightarrow> nat \<Rightarrow> 'a \<Rightarrow> 'a store" where
  "setitem st r i v = st[r := (st ! r)[i := v]]"

text \<open>
  \<^verbatim>\<open>np.empty\<close> leaves the entries uninitialised. The model fills them with 0; the
  loops overwrite every entry before the array is returned (\<open>compute_grad_objective_numeric\<close>
  and \<open>numerical_jacobian\<close> below give the returned arrays in closed form).
\<close>

definition np_empty :: "nat \<Rightarrow> 'a::zero list" where
  "np_empty n = replicate n 0"

definition np_empty2 :: "nat \<Rightarrow> nat \<Rightarrow> 'a::zero list list" where
  "np_empty2 rows cols = replicate rows (replicate cols 0)"

text \<open>
  What a method call leaves behind: the value it returns or the exception it raises, the
  store, and the problem object.
\<close>

record ('a, 'r) outcome =
  ret :: "error + 'r"
  heap :: "'a store"
  self :: "'a OptimisationProblem"

definition returns :: "'r \<Rightarrow> 'a store \<Rightarrow> 'a OptimisationProblem \<Rightarrow> ('a, 'r) outcome" where
  "returns v st p = \<lparr> ret = Inr v, heap = st, self = p \<rparr>"

definition raises :: "error \<Rightarrow> 'a store \<Rightarrow> 'a OptimisationProblem \<Rightarrow> ('a, 'r) outcome" where
  "raises e st p = \<lparr> ret = Inl e, heap = st, self = p \<rparr>"

text \<open>
  \<^verbatim>\<open>xs[i]\<close> on a Python list with an \<^verbatim>\<open>int\<close> index: a negative index counts from
  the end, anything else out of range raises \<^verbatim>\<open>IndexError\<close>.
\<close>

definition list_getitem :: "'b list \<Rightarrow> int \<Rightarrow> error + 'b" where
  "list_getitem xs i =
     (if 0 \<le> i \<and> i < int (length xs) then Inr (xs ! nat i)
      else if i < 0 \<and> - int (length xs) \<le> i then Inr (xs ! nat (int (length xs) + i))
      else Inl IndexError)"

text \<open>
  \<^verbatim>\<open>[xs[i] for i in selection]\<close>: left to right, the first bad index raises.
\<close>

fun select :: "'b list \<Rightarrow> int list \<Rightarrow> error + 'b list" where
  "select xs [] = Inr []"
| "select xs (i # rest) =
     (case list_getitem xs i of
        Inl e \<Rightarrow> Inl e
      | Inr c \<Rightarrow> (case select xs rest of Inl e \<Rightarrow> Inl e | Inr cs \<Rightarrow> Inr (c # cs)))"

text \<open>\<^verbatim>\<open>a[i]\<close> on an array, for an index taken from a \<^verbatim>\<open>range\<close>.\<close>

definition getitem :: "'b list \<Rightarrow> nat \<Rightarrow> error + 'b" where
  "getitem a i = (if i < length a then Inr (a ! i) else Inl IndexError)"

text \<open>
  \<^verbatim>\<open>np.array(rows)\<close> on a list of one-dimensional arrays: rows of different lengths
  are rejected with \<^verbatim>\<open>ValueError\<close> (NumPy 1.24 and later).
\<close>

definition np_array2 :: "'b list list \<Rightarrow> error + 'b list list" where
  "np_array2 rows =
     (if list_all (\<lambda>r. length r = length (hd rows)) rows then Inr rows else Inl ValueError)"

section \<open>OptimisationProblem: evaluation\<close>

definition compute_objective ::
  "'a OptimisationProblem \<Rightarrow> 'a store \<Rightarrow> ref \<Rightarrow> ('a, 'a) outcome" where
  "compute_objective p st x = returns (p_objective p (st ! x)) st p"

definition compute_constraints ::
  "'a OptimisationProblem \<Rightarrow> 'a store \<Rightarrow> ref \<Rightarrow> int list option \<Rightarrow> ('a, 'a list) outcome" where
  "compute_constraints p st x selection =
     (if m p + me p = 0 then raises UnconstrainedProblem st p
      else
        let constraints = or_empty (p_i_constraints p) @ or_empty (p_e_constraints p) in
        (case selection of
           None \<Rightarrow> returns (map (\<lambda>c. c (st ! x)) constraints) st p
         | Some sel \<Rightarrow>
             (case select constraints sel of
                Inl e \<Rightarrow> raises e st p
              | Inr cs \<Rightarrow> returns (map (\<lambda>c. c (st ! x)) cs) st p)))"

text \<open>\<^verbatim>\<open>v is not None\<close>.\<close>

definition is_not_None :: "'b option \<Rightarrow> bool" where
  "is_not_None v = (case v of None \<Rightarrow> False | Some _ \<Rightarrow> True)"

subsection \<open>Gradient of the objective\<close>

text \<open>
  One pass of the loop body of \<^verbatim>\<open>compute_grad_objective\<close> for the coordinate \<open>i\<close>:
  \<^verbatim>\<open>
    x_local[i] -= dx
    f_backward = self.compute_objective(x_local)
    x_local[i] += 2 * dx
    f_forward = self.compute_objective(x_local)
    grad[i] = (f_forward - f_backward) / (2 * dx)
    x_local[i] = x[i]
  \<close>
  The scalars are exact and \<open>x\<close> is a floating-point array; the section on the arithmetic
  of the machine has the same body with rounding, dtype and zero divisor.
\<close>

definition grad_objective_body ::
  "'a::field OptimisationProblem \<Rightarrow> 'a \<Rightarrow> ref \<Rightarrow> ref \<Rightarrow> nat \<Rightarrow> 'a store \<Rightarrow> 'a list \<Rightarrow>
   ('a, 'a list) outcome" where
  "grad_objective_body p dx x x_local i st grad =
     (let st1 = setitem st x_local i (st ! x_local ! i - dx);
          o1 = compute_objective p st1 x_local in
      case ret o1 of
        Inl e \<Rightarrow> raises e (heap o1) (self o1)
      | Inr f_backward \<Rightarrow>
          let st2 = setitem (heap o1) x_local i (heap o1 ! x_local ! i + 2 * dx);
              o2 = compute_objective (self o1) st2 x_local in
          (case ret o2 of
             Inl e \<Rightarrow> raises e (heap o2) (self o2)
           | Inr f_forward \<Rightarrow>
               let grad' = grad[i := (f_forward - f_backward) / (2 * dx)];
                   st3 = setitem (heap o2) x_local i (heap o2 ! x ! i)
               in returns grad' st3 (self o2)))"

text \<open>\<^verbatim>\<open>for i in range(x.size)\<close>: the body for each index of the list in turn.\<close>

fun grad_objective_loop ::
  "'a::field OptimisationProblem \<Rightarrow> 'a \<Rightarrow> ref \<Rightarrow> ref \<Rightarrow> nat list \<Rightarrow> 'a store \<Rightarrow> 'a list \<Rightarrow>
   ('a, 'a list) outcome" where
  "grad_objective_loop p dx x x_local [] st grad = returns grad st p"
| "grad_objective_loop p dx x x_local (i # rest) st grad =
     (let o1 = grad_objective_body p dx x x_local i st grad in
      case ret o1 of
        Inl e \<Rightarrow> o1
      | Inr grad' \<Rightarrow> grad_objective_loop (self o1) dx x x_local rest (heap o1) grad')"

definition compute_grad_objective ::
  "'a::field OptimisationProblem \<Rightarrow> 'a store \<Rightarrow> ref \<Rightarrow> 'a \<Rightarrow> ('a, 'a list) outcome" where
  "compute_grad_objective p st x dx =
     (case p_grad_objective p of
        Some g \<Rightarrow> returns (g (st ! x)) st p
      | None \<Rightarrow>
          let grad = np_empty (length (st ! x));
              (st1, x_local) = np_copy st x
          in grad_objective_loop p dx x x_local [0..<length (st ! x)] st1 grad)"

subsection \<open>Gradients of the constraints\<close>

text \<open>\<^verbatim>\<open>grad[:, i] = col\<close>; \<open>col\<close> has one entry per row of \<open>grad\<close>.\<close>

definition set_column :: "'b list list \<Rightarrow> nat \<Rightarrow> 'b list \<Rightarrow> 'b list list" where
  "set_column grad i col = map2 (\<lambda>row c. row[i := c]) grad col"

text \<open>
  One pass of the loop body of the numerical path of \<^verbatim>\<open>compute_grad_constraints\<close>:
  \<^verbatim>\<open>
    x_local[i] -= dx
    g_backward = self.compute_constraints(x_local, selection)
    x_local[i] += 2 * dx
    g_forward = self.compute_constraints(x_local, selection)
    grad[:, i] = (g_forward - g_backward) / (2 * dx)
    x_local[i] -= dx
  \<close>
  The scalars are exact: the three updates of \<open>x_local[i]\<close> cancel here, where in doubles
  they can leave the copy one rounding away from \<open>x[i]\<close>.
\<close>

definition grad_constraints_body ::
  "'a::field OptimisationProblem \<Rightarrow> 'a \<Rightarrow> int list option \<Rightarrow> ref \<Rightarrow> nat \<Rightarrow> 'a store \<Rightarrow>
   'a list list \<Rightarrow> ('a, 'a list list) outcome" where
  "grad_constraints_body p dx selection x_local i st grad =
     (let st1 = setitem st x_local i (st ! x_local ! i - dx);
          o1 = compute_constraints p st1 x_local selection in
      case ret o1 of
        Inl e \<Rightarrow> raises e (heap o1) (self o1)
      | Inr g_backward \<Rightarrow>
          let st2 = setitem (heap o1) x_local i (heap o1 ! x_local ! i + 2 * dx);
              o2 = compute_constraints (self o1) st2 x_local selection in
          (case ret o2 of
             Inl e \<Rightarrow> raises e (heap o2) (self o2)
           | Inr g_forward \<Rightarrow>
               let grad' = set_column grad i
                             (map (\<lambda>d. d / (2 * dx)) (map2 (-) g_forward g_backward));
                   st3 = setitem (heap o2) x_local i (heap o2 ! x_local ! i - dx)
               in returns grad' st3 (self o2)))"

fun grad_constraints_loop ::
  "'a::field OptimisationProblem \<Rightarrow> 'a \<Rightarrow> int list option \<Rightarrow> ref \<Rightarrow> nat list \<Rightarrow> 'a store \<Rightarrow>
   'a list list \<Rightarrow> ('a, 'a list list) outcome" where
  "grad_constraints_loop p dx selection x_local [] st grad = returns grad st p"
| "grad_constraints_loop p dx selection x_local (i # rest) st grad =
     (let o1 = grad_constraints_body p dx selection x_local i st grad in
      case ret o1 of
        Inl e \<Rightarrow> o1
      | Inr grad' \<Rightarrow> grad_constraints_loop (self o1) dx selection x_local rest (heap o1) grad')"

text \<open>
  \<^verbatim>\<open>compute_grad_constraints\<close>. In the analytic branch
  \<^verbatim>\<open>[grad_constraints[i](x) for i in selection]\<close> indexes and calls element by
  element; the callables raise nothing, so the first bad index decides, as in \<open>select\<close>.
\<close>

definition compute_grad_constraints ::
  "'a::field OptimisationProblem \<Rightarrow> 'a store \<Rightarrow> ref \<Rightarrow> 'a \<Rightarrow> int list option \<Rightarrow>
   ('a, 'a list list) outcome" where
  "compute_grad_constraints p st x dx selection =
     (if m p + me p = 0 then raises UnconstrainedProblem st p
      else if is_not_None (p_grad_i_constraints p) \<or> is_not_None (p_grad_e_constraints p) then
        let grad_constraints =
              or_empty (p_grad_i_constraints p) @ or_empty (p_grad_e_constraints p) in
        (case selection of
           None \<Rightarrow>
             (case np_array2 (map (\<lambda>grad. grad (st ! x)) grad_constraints) of
                Inl e \<Rightarrow> raises e st p
              | Inr jac \<Rightarrow> returns jac st p)
         | Some sel \<Rightarrow>
             (case select grad_constraints sel of
                Inl e \<Rightarrow> raises e st p
              | Inr gs \<Rightarrow>
                  (case np_array2 (map (\<lambda>grad. grad (st ! x)) gs) of
                     Inl e \<Rightarrow> raises e st p
                   | Inr jac \<Rightarrow> returns jac st p)))
      else
        let n = length (st ! x);
            grad = (case selection of
                      None \<Rightarrow> np_empty2 (m p + me p) n
                    | Some sel \<Rightarrow> np_empty2 (length sel) n);
            (st1, x_local) = np_copy st x;
            o1 = grad_constraints_loop p dx selection x_local [0..<n] st1 grad
        in (case ret o1 of
              Inl e \<Rightarrow> o1
            | Inr g \<Rightarrow>
                returns g (heap o1)
                  ((self o1)\<lparr> grad_constraints_evaluations :=
                                grad_constraints_evaluations (self o1) + 1 \<rparr>)))"

subsection \<open>Lagrange function\<close>

text \<open>\<^verbatim>\<open>for i in range(self.m + self.me): f += lm[i] * g[i]\<close>.\<close>

fun lagrange_loop :: "'a::field list \<Rightarrow> 'a list \<Rightarrow> nat list \<Rightarrow> 'a \<Rightarrow> error + 'a" where
  "lagrange_loop lm g [] f = Inr f"
| "lagrange_loop lm g (i # rest) f =
     (case getitem lm i of
        Inl e \<Rightarrow> Inl e
      | Inr l \<Rightarrow>
          (case getitem g i of
             Inl e \<Rightarrow> Inl e
           | Inr gi \<Rightarrow> lagrange_loop lm g rest (f + l * gi)))"

definition compute_lagrange_function ::
  "'a::field OptimisationProblem \<Rightarrow> 'a store \<Rightarrow> ref \<Rightarrow> 'a list \<Rightarrow> ('a, 'a) outcome" where
  "compute_lagrange_function p st x lm =
     (let f = p_objective p (st ! x) in
      if m p + me p > 0 then
        let o1 = compute_constraints p st x None in
        (case ret o1 of
           Inl e \<Rightarrow> raises e (heap o1) (self o1)
         | Inr g \<Rightarrow>
             (case lagrange_loop lm g [0..<m (self o1) + me (self o1)] f of
                Inl e \<Rightarrow> raises e (heap o1) (self o1)
              | Inr f' \<Rightarrow> returns f' (heap o1) (self o1)))
      else returns f st p)"

text \<open>
  \<^verbatim>\<open>a += b\<close> on one-dimensional arrays: equal lengths add entry by entry, a \<open>b\<close> of
  length 1 is broadcast, anything else is a \<^verbatim>\<open>ValueError\<close>.
\<close>

definition vec_iadd :: "'a::field list \<Rightarrow> 'a list \<Rightarrow> error + 'a list" where
  "vec_iadd a b =
     (if length b = length a then Inr (map2 (+) a b)
      else if length b = 1 then Inr (map (\<lambda>v. v + hd b) a)
      else Inl ValueError)"

text \<open>\<^verbatim>\<open>for i in range(self.m + self.me): grad += lm[i] * grad_g[i]\<close>.\<close>

fun grad_lagrange_loop ::
  "'a::field list \<Rightarrow> 'a list list \<Rightarrow> nat list \<Rightarrow> 'a list \<Rightarrow> error + 'a list" where
  "grad_lagrange_loop lm grad_g [] grad = Inr grad"
| "grad_lagrange_loop lm grad_g (i # rest) grad =
     (case getitem lm i of
        Inl e \<Rightarrow> Inl e
      | Inr l \<Rightarrow>
          (case getitem grad_g i of
             Inl e \<Rightarrow> Inl e
           | Inr row \<Rightarrow>
               (case vec_iadd grad (map (\<lambda>v. l * v) row) of
                  Inl e \<Rightarrow> Inl e
                | Inr grad' \<Rightarrow> grad_lagrange_loop lm grad_g rest grad')))"

text \<open>The default step \<^verbatim>\<open>dx = 1e-6\<close> of both gradient routines.\<close>

definition default_dx :: "'a::field" where
  "default_dx = 1 / 1000000"

definition compute_grad_lagrange_function ::
  "'a::field OptimisationProblem \<Rightarrow> 'a store \<Rightarrow> ref \<Rightarrow> 'a list \<Rightarrow> ('a, 'a list) outcome" where
  "compute_grad_lagrange_function p st x lm =
     (let o1 = compute_grad_objective p st x default_dx in
      case ret o1 of
        Inl e \<Rightarrow> raises e (heap o1) (self o1)
      | Inr grad \<Rightarrow>
          if m (self o1) + me (self o1) > 0 then
            let o2 = compute_grad_constraints (self o1) (heap o1) x default_dx None in
            (case ret o2 of
               Inl e \<Rightarrow> raises e (heap o2) (self o2)
             | Inr grad_g \<Rightarrow>
                 (case grad_lagrange_loop lm grad_g [0..<m (self o2) + me (self o2)] grad of
                    Inl e \<Rightarrow> raises e (heap o2) (self o2)
                  | Inr grad' \<Rightarrow> returns grad' (heap o2) (self o2)))
          else returns grad (heap o1) (self o1))"

section \<open>OptimisationResult\<close>

datatype OptimiserState =
    CONVERGED | DIVERGED | ENCOUNTERED_INF | ENCOUNTERED_NAN | INFEASIBLE | NOT_STARTED
  | REACHED_MAX_ITERATIONS | RUNNING | UNDEFINED

text \<open>
  The fields of the dataclass, with the prefix \<open>res_\<close> (the source's \<open>x\<close>, \<open>lm\<close>,
  \<open>state\<close>, \<open>step\<close> are wanted as variable names). A field of type \<^verbatim>\<open>NDArray\<close>
  holds a reference: \<^verbatim>\<open>frozen=True\<close> guards the attributes of the object, not the
  contents of the arrays they point to.
\<close>

record 'a OptimisationResult =
  res_iteration :: int
  res_x :: ref
  res_state :: OptimiserState
  res_objective :: "'a option"
  res_lm :: "ref option"
  res_i_constraints :: "ref option"
  res_e_constraints :: "ref option"
  res_step :: "ref option"

text \<open>
  The generated \<^verbatim>\<open>__init__\<close>: \<open>iteration\<close> and \<open>x\<close> are required, an argument
  that is not passed (\<open>None\<close> for \<open>state_arg\<close>) takes the default of its field.
\<close>

definition new_result ::
  "int \<Rightarrow> ref \<Rightarrow> OptimiserState option \<Rightarrow> 'a option \<Rightarrow> ref option \<Rightarrow> ref option \<Rightarrow>
   ref option \<Rightarrow> ref option \<Rightarrow> 'a OptimisationResult" where
  "new_result iteration x state_arg objective lm i_constraints e_constraints step =
     \<lparr> res_iteration = iteration,
       res_x = x,
       res_state = (case state_arg of None \<Rightarrow> UNDEFINED | Some s \<Rightarrow> s),
       res_objective = objective,
       res_lm = lm,
       res_i_constraints = i_constraints,
       res_e_constraints = e_constraints,
       res_step = step \<rparr>"

text \<open>The values an attribute of a result can hold.\<close>

datatype 'a attr_value =
    IntV int | RefV ref | StateV OptimiserState | FloatV 'a | NoneV

definition opt_ref :: "ref option \<Rightarrow> 'a attr_value" where
  "opt_ref r = (case r of None \<Rightarrow> NoneV | Some a \<Rightarrow> RefV a)"

definition result_fields :: "string list" where
  "result_fields =
     [''iteration'', ''x'', ''state'', ''objective'', ''lm'', ''i_constraints'',
      ''e_constraints'', ''step'']"

text \<open>\<^verbatim>\<open>getattr(result, name)\<close> for the data attributes.\<close>

definition getattr :: "'a OptimisationResult \<Rightarrow> string \<Rightarrow> error + 'a attr_value" where
  "getattr r name =
     (if name = ''iteration'' then Inr (IntV (res_iteration r))
      else if name = ''x'' then Inr (RefV (res_x r))
      else if name = ''state'' then Inr (StateV (res_state r))
      else if name = ''objective'' then
        Inr (case res_objective r of None \<Rightarrow> NoneV | Some v \<Rightarrow> FloatV v)
      else if name = ''lm'' then Inr (opt_ref (res_lm r))
      else if name = ''i_constraints'' then Inr (opt_ref (res_i_constraints r))
      else if name = ''e_constraints'' then Inr (opt_ref (res_e_constraints r))
      else if name = ''step'' then Inr (opt_ref (res_step r))
      else Inl AttributeError)"

text \<open>
  \<^verbatim>\<open>@dataclass(frozen=True)\<close> adds \<^verbatim>\<open>__setattr__\<close> and \<^verbatim>\<open>__delattr__\<close>
  methods to the class, and these raise \<^verbatim>\<open>FrozenInstanceError\<close> when invoked on an
  instance of the class: \<^verbatim>\<open>result.name = value\<close> and \<^verbatim>\<open>del result.name\<close> raise
  and leave the object as it was.
\<close>

definition setattr ::
  "'a OptimisationResult \<Rightarrow> string \<Rightarrow> 'a attr_value \<Rightarrow> (error + unit) \<times> 'a OptimisationResult" where
  "setattr r name v = (Inl FrozenInstanceError, r)"

definition delattr ::
  "'a OptimisationResult \<Rightarrow> string \<Rightarrow> (error + unit) \<times> 'a OptimisationResult" where
  "delattr r name = (Inl FrozenInstanceError, r)"

text \<open>A caller's attempts to change a result, and running a list of them in order.\<close>

datatype 'a attempt = Assign string "'a attr_value" | Delete string

definition attempt_on ::
  "'a OptimisationResult \<Rightarrow> 'a attempt \<Rightarrow> (error + unit) \<times> 'a OptimisationResult" where
  "attempt_on r a = (case a of Assign name v \<Rightarrow> setattr r name v | Delete name \<Rightarrow> delattr r name)"

fun attempts ::
  "'a OptimisationResult \<Rightarrow> 'a attempt list \<Rightarrow> (error + unit) list \<times> 'a OptimisationResult" where
  "attempts r [] = ([], r)"
| "attempts r (a # rest) =
     (case attempt_on r a of
        (res, r') \<Rightarrow> (case attempts r' rest of (ress, r'') \<Rightarrow> (res # ress, r'')))"

section \<open>The central difference, as the specification words it\<close>

text \<open>
  The specification describes the numerical gradient by the formula
  \<open>(f (x + dx * e\<^sub>i) - f (x - dx * e\<^sub>i)) / (2 * dx)\<close> with \<open>e\<^sub>i\<close> the \<open>i\<close>-th unit
  vector. These definitions follow that wording; the theorems compare the code with them.
\<close>

definition unit_vector :: "nat \<Rightarrow> nat \<Rightarrow> 'a::field list" where
  "unit_vector n i = map (\<lambda>j. if j = i then 1 else 0) [0..<n]"

definition vec_add :: "'a::field list \<Rightarrow> 'a list \<Rightarrow> 'a list" where
  "vec_add a b = map2 (+) a b"

definition vec_sub :: "'a::field list \<Rightarrow> 'a list \<Rightarrow> 'a list" where
  "vec_sub a b = map2 (-) a b"

definition scale :: "'a::field \<Rightarrow> 'a list \<Rightarrow> 'a list" where
  "scale c v = map (\<lambda>a. c * a) v"

definition spec_central_difference :: "('a::field list \<Rightarrow> 'a) \<Rightarrow> 'a list \<Rightarrow> 'a \<Rightarrow> nat \<Rightarrow> 'a" where
  "spec_central_difference f v dx i =
     (f (vec_add v (scale dx (unit_vector (length v) i)))
      - f (vec_sub v (scale dx (unit_vector (length v) i)))) / (2 * dx)"

text \<open>
  The sum of \<open>lm[i] * g[i]\<close> for \<open>i\<close> from 0 to \<open>k - 1\<close>, as the specification words
  the Lagrange function.
\<close>

definition spec_weighted_sum :: "'a::field list \<Rightarrow> 'a list \<Rightarrow> nat \<Rightarrow> 'a" where
  "spec_weighted_sum lm g k = (\<Sum>i\<leftarrow>[0..<k]. lm ! i * g ! i)"

section \<open>The objective gradient in the arithmetic of the machine\<close>

text \<open>
  The definitions above compute with exact scalars. The program computes in doubles, and it
  stores into \<open>x_local\<close>, a copy that has the dtype of \<open>x\<close>. This section models
  \<^verbatim>\<open>compute_grad_objective\<close> once more, line by line as before, with both made
  explicit. Numbers stay elements of the field; a machine says how results are rounded and
  stored:
  \<^item> \<open>fl\<close> rounds the exact result of \<open>+\<close>, \<open>-\<close>, \<open>*\<close>, \<open>/\<close> to the double the operation
    returns (IEEE 754 defines each of the four as the rounded exact result);
  \<^item> \<open>to_dtype\<close> converts a double to the dtype of \<open>x\<close> when it is stored into
    \<open>x_local\<close>: nothing happens for a floating-point array, an integer array truncates.
  Overflow, \<open>nan\<close> and \<open>inf\<close> remain outside the model.
\<close>

record 'a machine =
  fl :: "'a \<Rightarrow> 'a"
  to_dtype :: "'a \<Rightarrow> 'a"

text \<open>
  \<^verbatim>\<open>a / b\<close>: on Python floats a zero divisor raises \<^verbatim>\<open>ZeroDivisionError\<close>. (On NumPy
  scalars the result is \<open>nan\<close> or \<open>inf\<close> with a warning; neither is a number of the model.)
\<close>

definition machine_div :: "'a::field machine \<Rightarrow> 'a \<Rightarrow> 'a \<Rightarrow> error + 'a" where
  "machine_div M a b = (if b = 0 then Inl ZeroDivisionError else Inr (fl M (a / b)))"

text \<open>
  The loop body of \<^verbatim>\<open>compute_grad_objective\<close>:
  \<^verbatim>\<open>
    x_local[i] -= dx
    f_backward = self.compute_objective(x_local)
    x_local[i] += 2 * dx
    f_forward = self.compute_objective(x_local)
    grad[i] = (f_forward - f_backward) / (2 * dx)
    x_local[i] = x[i]
  \<close>
  \<open>grad\<close> is a double array and \<open>x[i]\<close> already has the dtype of \<open>x_local\<close>: these two
  stores convert nothing.
\<close>

definition machine_grad_objective_body ::
  "'a::field machine \<Rightarrow> 'a OptimisationProblem \<Rightarrow> 'a \<Rightarrow> ref \<Rightarrow> ref \<Rightarrow> nat \<Rightarrow> 'a store \<Rightarrow>
   'a list \<Rightarrow> ('a, 'a list) outcome" where
  "machine_grad_objective_body M p dx x x_local i st grad =
     (let st1 = setitem st x_local i (to_dtype M (fl M (st ! x_local ! i - dx)));
          o1 = compute_objective p st1 x_local in
      case ret o1 of
        Inl e \<Rightarrow> raises e (heap o1) (self o1)
      | Inr f_backward \<Rightarrow>
          let st2 = setitem (heap o1) x_local i
                      (to_dtype M (fl M (heap o1 ! x_local ! i + fl M (2 * dx))));
              o2 = compute_objective (self o1) st2 x_local in
          (case ret o2 of
             Inl e \<Rightarrow> raises e (heap o2) (self o2)
           | Inr f_forward \<Rightarrow>
               (case machine_div M (fl M (f_forward - f_backward)) (fl M (2 * dx)) of
                  Inl e \<Rightarrow> raises e (heap o2) (self o2)
                | Inr q \<Rightarrow>
                    let grad' = grad[i := q];
                        st3 = setitem (heap o2) x_local i (heap o2 ! x ! i)
                    in returns grad' st3 (self o2))))"







section \<open>Example problems\<close>

text \<open>
  Concrete callables and problems over the reals, on which the theorems are instantiated.
  \<open>sphere\<close> is the benchmark \<open>f(x) = \<Sum> x\<^sub>i\<^sup>2\<close>.
\<close>

definition sphere :: "real list \<Rightarrow> real" where
  "sphere v = sum_list (map (\<lambda>a. a * a) v)"

definition grad_sphere :: "real list \<Rightarrow> real list" where
  "grad_sphere v = map (\<lambda>a. 2 * a) v"

definition c_sum :: "real list \<Rightarrow> real" where
  "c_sum v = sum_list v - 1"

definition grad_c_sum :: "real list \<Rightarrow> real list" where
  "grad_c_sum v = map (\<lambda>a. 1) v"

definition c_ball :: "real list \<Rightarrow> real" where
  "c_ball v = sphere v - 4"

definition c_first :: "real list \<Rightarrow> real" where
  "c_first v = sum_list (take 1 v)"

definition grad_c_first :: "real list \<Rightarrow> real list" where
  "grad_c_first v = map (\<lambda>j. if j = 0 then 1 else 0) [0..<length v]"

text \<open>No constraints, no analytic gradient.\<close>

definition unconstrained_problem :: "real OptimisationProblem" where
  "unconstrained_problem =
     \<lparr> p_objective = sphere, p_grad_objective = None,
       p_i_constraints = None, p_grad_i_constraints = None,
       p_e_constraints = None, p_grad_e_constraints = None,
       lb = None, ub = None, minima = Some [[0, 0]], grad_constraints_evaluations = 0 \<rparr>"

text \<open>Two inequalities and one equality, no analytic gradient at all.\<close>

definition numeric_problem :: "real OptimisationProblem" where
  "numeric_problem =
     \<lparr> p_objective = sphere, p_grad_objective = None,
       p_i_constraints = Some [c_sum, c_ball], p_grad_i_constraints = None,
       p_e_constraints = Some [c_first], p_grad_e_constraints = None,
       lb = None, ub = None, minima = None, grad_constraints_evaluations = 0 \<rparr>"

text \<open>One inequality and one equality, every gradient analytic.\<close>

definition analytic_problem :: "real OptimisationProblem" where
  "analytic_problem =
     \<lparr> p_objective = sphere, p_grad_objective = Some grad_sphere,
       p_i_constraints = Some [c_sum], p_grad_i_constraints = Some [grad_c_sum],
       p_e_constraints = Some [c_first], p_grad_e_constraints = Some [grad_c_first],
       lb = None, ub = None, minima = None, grad_constraints_evaluations = 0 \<rparr>"

text \<open>
  One inequality with its analytic gradient and one equality without: what
  \<^verbatim>\<open>OptimisationProblem(sphere, i_constraints=[c_sum], grad_i_constraints=[grad_c_sum],
  e_constraints=[c_first])\<close> constructs.
\<close>

definition partial_problem :: "real OptimisationProblem" where
  "partial_problem =
     \<lparr> p_objective = sphere, p_grad_objective = None,
       p_i_constraints = Some [c_sum], p_grad_i_constraints = Some [grad_c_sum],
       p_e_constraints = Some [c_first], p_grad_e_constraints = None,
       lb = None, ub = None, minima = None, grad_constraints_evaluations = 0 \<rparr>"

text \<open>A result as an optimiser would record it at iteration 3.\<close>

definition example_result :: "real OptimisationResult" where
  "example_result = new_result 3 0 (Some RUNNING) (Some 5) None (Some 1) None None"

section \<open>Auxiliary notions for the proofs\<close>

text \<open>
  The quotient one pass of the objective loop stores in \<open>grad[i]\<close>, in terms of the
  contents \<open>v\<close> of the array at entry: \<open>x_local[i]\<close> is \<open>v[i] - dx\<close> at the backward
  evaluation and \<open>v[i] - dx + 2 * dx\<close> at the forward one.
\<close>

definition code_difference :: "('a::field list \<Rightarrow> 'a) \<Rightarrow> 'a list \<Rightarrow> 'a \<Rightarrow> nat \<Rightarrow> 'a" where
  "code_difference f v dx i =
     (f (v[i := v ! i - dx + 2 * dx]) - f (v[i := v ! i - dx])) / (2 * dx)"

text \<open>
  The selection can be evaluated on the constraint list of the problem: it is absent, or
  every index of it is in range for \<open>list_getitem\<close>.
\<close>

definition selection_ok :: "'a OptimisationProblem \<Rightarrow> int list option \<Rightarrow> bool" where
  "selection_ok p selection =
     (case selection of
        None \<Rightarrow> True
      | Some sel \<Rightarrow>
          (case select (or_empty (p_i_constraints p) @ or_empty (p_e_constraints p)) sel of
             Inl e \<Rightarrow> False
           | Inr cs \<Rightarrow> True))"

text \<open>
  The constraints a call evaluates, in the order of its result: all of them, or the ones the
  selection picks (the empty list stands in when the selection cannot be evaluated).
\<close>

definition selected_constraints ::
  "'a OptimisationProblem \<Rightarrow> int list option \<Rightarrow> ('a list \<Rightarrow> 'a) list" where
  "selected_constraints p selection =
     (case selection of
        None \<Rightarrow> or_empty (p_i_constraints p) @ or_empty (p_e_constraints p)
      | Some sel \<Rightarrow>
          (case select (or_empty (p_i_constraints p) @ or_empty (p_e_constraints p)) sel of
             Inl e \<Rightarrow> []
           | Inr cs \<Rightarrow> cs))"

text \<open>The numerical path of \<open>compute_grad_constraints\<close> is the one taken.\<close>

definition numerical_path :: "'a OptimisationProblem \<Rightarrow> bool" where
  "numerical_path p =
     (m p + me p > 0 \<and> p_grad_i_constraints p = None \<and> p_grad_e_constraints p = None)"

text \<open>The analytic path of \<open>compute_grad_constraints\<close> is the one taken.\<close>

definition analytic_path :: "'a OptimisationProblem \<Rightarrow> bool" where
  "analytic_path p =
     (m p + me p > 0 \<and>
      (is_not_None (p_grad_i_constraints p) \<or> is_not_None (p_grad_e_constraints p)))"

section \<open>Basic facts about the evaluation methods\<close>

lemma compute_objective_simps:
  "ret (compute_objective p st x) = Inr (p_objective p (st ! x))"
  "heap (compute_objective p st x) = st"
  "self (compute_objective p st x) = p"
  by (simp_all add: compute_objective_def returns_def)

lemma compute_constraints_frame:
  "heap (compute_constraints p st x selection) = st"
  "self (compute_constraints p st x selection) = p"
  by (simp_all add: compute_constraints_def returns_def raises_def Let_def
      split: option.splits sum.splits)

lemma compute_constraints_None:
  "m p + me p \<noteq> 0 \<Longrightarrow>
   compute_constraints p st x None =
     returns (map (\<lambda>c. c (st ! x)) (or_empty (p_i_constraints p) @ or_empty (p_e_constraints p)))
       st p"
  by (auto simp add: compute_constraints_def)

lemma compute_constraints_Some:
  "m p + me p \<noteq> 0 \<Longrightarrow>
   compute_constraints p st x (Some sel) =
     (case select (or_empty (p_i_constraints p) @ or_empty (p_e_constraints p)) sel of
        Inl e \<Rightarrow> raises e st p
      | Inr cs \<Rightarrow> returns (map (\<lambda>c. c (st ! x)) cs) st p)"
  by (auto simp add: compute_constraints_def)

lemma select_valid:
  "\<forall>i\<in>set sel. 0 \<le> i \<and> i < int (length xs) \<Longrightarrow>
   select xs sel = Inr (map (\<lambda>i. xs ! nat i) sel)"
  by (induction sel) (simp_all add: list_getitem_def)

lemmas example_defs =
  unconstrained_problem_def numeric_problem_def analytic_problem_def partial_problem_def
  sphere_def grad_sphere_def c_sum_def grad_c_sum_def c_ball_def c_first_def grad_c_first_def

lemmas method_defs =
  m_def me_def constrained_def or_empty_def is_not_None_def returns_def raises_def
  compute_objective_def compute_constraints_def list_getitem_def getitem_def

section \<open>Constraint evaluation\<close>

text \<open>
  C3. On a problem without constraints (\<open>m = me = 0\<close>), \<open>compute_constraints\<close> and
  \<open>compute_grad_constraints\<close> raise the "Unconstrained problem." error for every design
  vector, selection and step size; neither returns a value.
\<close>

theorem unconstrained_always_raises:
  "m p + me p = 0 \<Longrightarrow>
     ret (compute_constraints p st x selection) = Inl UnconstrainedProblem \<and>
     ret (compute_grad_constraints p st x dx selection) = Inl UnconstrainedProblem"
  by (simp add: compute_constraints_def compute_grad_constraints_def raises_def)

theorem unconstrained_always_raises_witness:
  "m unconstrained_problem + me unconstrained_problem = 0 \<and>
   ret (compute_constraints unconstrained_problem [[1, 2]] 0 (Some [0])) =
     Inl UnconstrainedProblem \<and>
   ret (compute_grad_constraints unconstrained_problem [[1, 2]] 0 (1 / 2) None) =
     Inl UnconstrainedProblem"
proof -
  have h: "m unconstrained_problem + me unconstrained_problem = 0"
    by (simp add: unconstrained_problem_def m_def me_def or_empty_def)
  from unconstrained_always_raises [OF h] h show ?thesis
    by blast
qed

text \<open>
  C5. On a constrained problem, for a selection whose entries are indices
  \<open>0 \<le> i < m + me\<close> into the list "inequalities, then equalities",
  \<open>compute_constraints(x, selection)\<close> returns a vector as long as the selection whose
  \<open>j\<close>-th entry is the value at \<open>x\<close> of the constraint with index \<open>selection[j]\<close>, that
  is entry \<open>selection[j]\<close> of the full vector \<open>compute_constraints(x)\<close>.
\<close>

theorem selection_order:
  assumes "present st x" and "constrained p"
    and "\<forall>i\<in>set sel. 0 \<le> i \<and> i < int (m p + me p)"
  shows "\<exists>full r.
           ret (compute_constraints p st x None) = Inr full \<and>
           ret (compute_constraints p st x (Some sel)) = Inr r \<and>
           full = map (\<lambda>c. c (st ! x))
                    (or_empty (p_i_constraints p) @ or_empty (p_e_constraints p)) \<and>
           length full = m p + me p \<and>
           length r = length sel \<and>
           (\<forall>j<length sel. r ! j = full ! nat (sel ! j))"
proof -
  define cs where "cs = or_empty (p_i_constraints p) @ or_empty (p_e_constraints p)"
  have len: "length cs = m p + me p"
    by (simp add: cs_def m_def me_def)
  from assms(2) have pos: "m p + me p \<noteq> 0"
    by (simp add: constrained_def)
  from assms(3) have valid: "\<forall>i\<in>set sel. 0 \<le> i \<and> i < int (length cs)"
    by (simp only: len)
  then have "select cs sel = Inr (map (\<lambda>i. cs ! nat i) sel)"
    by (rule select_valid)
  with pos have r: "ret (compute_constraints p st x (Some sel)) =
      Inr (map (\<lambda>c. c (st ! x)) (map (\<lambda>i. cs ! nat i) sel))"
    by (simp add: compute_constraints_Some returns_def flip: cs_def)
  from pos have f: "ret (compute_constraints p st x None) = Inr (map (\<lambda>c. c (st ! x)) cs)"
    by (simp add: compute_constraints_None returns_def flip: cs_def)
  have "map (\<lambda>c. c (st ! x)) (map (\<lambda>i. cs ! nat i) sel) ! j =
        map (\<lambda>c. c (st ! x)) cs ! nat (sel ! j)"
    if j: "j < length sel" for j
  proof -
    from j have "sel ! j \<in> set sel" by simp
    with valid have "0 \<le> sel ! j \<and> sel ! j < int (length cs)" by blast
    then have "nat (sel ! j) < length cs" by linarith
    with j show ?thesis by simp
  qed
  with r f len show ?thesis
    by (simp add: cs_def)
qed

theorem selection_order_witness:
  "present [[1, 2 :: real]] 0 \<and>
   constrained numeric_problem \<and>
   ret (compute_constraints numeric_problem [[1, 2]] 0 None) = Inr [2, 1, 1] \<and>
   ret (compute_constraints numeric_problem [[1, 2]] 0 (Some [2, 0])) = Inr [1, 2]"
proof -
  have pr: "present [[1, 2 :: real]] 0"
    by (simp add: present_def)
  have c: "constrained numeric_problem"
    by (simp add: numeric_problem_def method_defs)
  have v: "\<forall>i\<in>set [2, 0]. 0 \<le> i \<and> i < int (m numeric_problem + me numeric_problem)"
    by (simp add: numeric_problem_def method_defs)
  from selection_order [OF pr c v]
  obtain full r where
    full: "ret (compute_constraints numeric_problem [[1, 2]] 0 None) = Inr full"
      "full = map (\<lambda>c. c ([[1, 2]] ! 0))
         (or_empty (p_i_constraints numeric_problem) @ or_empty (p_e_constraints numeric_problem))"
    and r: "ret (compute_constraints numeric_problem [[1, 2]] 0 (Some [2, 0])) = Inr r"
      "length r = length [2, 0 :: int]"
      "\<forall>j<length [2, 0 :: int]. r ! j = full ! nat ([2, 0] ! j)"
    by blast
  from full(2) have fv: "full = [2, 1, 1]"
    by (simp add: example_defs or_empty_def)
  from r(2) obtain a b where ab: "r = [a, b]"
    by (cases r; cases "tl r") auto
  from r(3) have "r ! 0 = full ! 2" "r ! 1 = full ! 0"
    by simp_all
  with ab fv have "r = [1, 2]"
    by simp
  with pr c full(1) fv r(1) show ?thesis
    by simp
qed

section \<open>The finite-difference loops\<close>

lemma fold_update_upt_aux:
  "k \<le> length g \<Longrightarrow> fold (\<lambda>i a. a[i := F i]) [0..<k] g = map F [0..<k] @ drop k g"
proof (induction k)
  case 0
  then show ?case by simp
next
  case (Suc k)
  then have "k < length g" by simp
  then have "(drop k g)[0 := F k] = F k # drop (Suc k) g"
    by (simp flip: Cons_nth_drop_Suc)
  with Suc show ?case
    by (simp add: list_update_append)
qed

lemma fold_update_upt:
  "length g = n \<Longrightarrow> fold (\<lambda>i a. a[i := F i]) [0..<n] g = map F [0..<n]"
  using fold_update_upt_aux [of n g F] by simp

subsection \<open>Objective\<close>

lemma grad_objective_body_self:
  "self (grad_objective_body p dx x xl i st grad) = p"
  by (simp add: grad_objective_body_def Let_def compute_objective_simps returns_def)

lemma grad_objective_body_returns:
  "\<exists>g. ret (grad_objective_body p dx x xl i st grad) = Inr g"
  by (simp add: grad_objective_body_def Let_def compute_objective_simps returns_def)

lemma grad_objective_loop_self:
  "self (grad_objective_loop p dx x xl idx st grad) = p"
proof (induction idx arbitrary: st grad)
  case Nil
  then show ?case by (simp add: returns_def)
next
  case (Cons i rest)
  obtain g where "ret (grad_objective_body p dx x xl i st grad) = Inr g"
    using grad_objective_body_returns by blast
  with Cons.IH show ?case
    by (simp add: grad_objective_body_self)
qed

lemma grad_objective_loop_returns:
  "\<exists>g. ret (grad_objective_loop p dx x xl idx st grad) = Inr g"
proof (induction idx arbitrary: st grad)
  case Nil
  then show ?case by (simp add: returns_def)
next
  case (Cons i rest)
  obtain g where "ret (grad_objective_body p dx x xl i st grad) = Inr g"
    using grad_objective_body_returns by blast
  with Cons.IH show ?case
    by (simp add: grad_objective_body_self)
qed

text \<open>
  One pass, started with the copy equal to \<open>x\<close>: it stores the quotient and leaves the
  store as it found it, because the last assignment writes \<open>x[i]\<close> back.
\<close>

lemma grad_objective_body_eq:
  assumes "x \<noteq> xl" "xl < length st" "st ! xl = st ! x" "i < length (st ! x)"
  shows "grad_objective_body p dx x xl i st grad =
           returns (grad[i := code_difference (p_objective p) (st ! x) dx i]) st p"
proof -
  have nth: "(st[xl := a]) ! xl = a" "(st[xl := a]) ! x = st ! x" for a
    using assms by simp_all
  have upd: "(st ! x)[i := a] ! i = a" for a
    using assms by simp
  have restore: "st[xl := st ! x] = st"
    using assms by (simp add: list_update_same_conv)
  show ?thesis
    by (simp add: grad_objective_body_def Let_def compute_objective_simps setitem_def
        code_difference_def assms(3) nth upd restore returns_def)
qed

lemma grad_objective_loop_eq:
  assumes "x \<noteq> xl" "xl < length st" "st ! xl = st ! x" "\<forall>i\<in>set idx. i < length (st ! x)"
  shows "grad_objective_loop p dx x xl idx st grad =
           returns (fold (\<lambda>i a. a[i := code_difference (p_objective p) (st ! x) dx i]) idx grad)
             st p"
  using assms
proof (induction idx arbitrary: grad)
  case Nil
  then show ?case by simp
next
  case (Cons i rest)
  then have "grad_objective_body p dx x xl i st grad =
           returns (grad[i := code_difference (p_objective p) (st ! x) dx i]) st p"
    by (intro grad_objective_body_eq) simp_all
  with Cons show ?case
    by (simp add: returns_def)
qed

lemma compute_grad_objective_analytic:
  "p_grad_objective p = Some g \<Longrightarrow> compute_grad_objective p st x dx = returns (g (st ! x)) st p"
  by (simp add: compute_grad_objective_def)

lemma compute_grad_objective_numeric:
  assumes "present st x" "p_grad_objective p = None"
  shows "compute_grad_objective p st x dx =
           returns (map (code_difference (p_objective p) (st ! x) dx) [0..<length (st ! x)])
             (st @ [st ! x]) p"
proof -
  from assms(1) have x: "x < length st"
    by (simp add: present_def)
  let ?st1 = "st @ [st ! x]"
  have "grad_objective_loop p dx x (length st) [0..<length (st ! x)] ?st1
          (np_empty (length (st ! x))) =
        returns (fold (\<lambda>i a. a[i := code_difference (p_objective p) (?st1 ! x) dx i])
                  [0..<length (st ! x)] (np_empty (length (st ! x)))) ?st1 p"
    using x by (intro grad_objective_loop_eq) (simp_all add: nth_append)
  moreover have "?st1 ! x = st ! x"
    using x by (simp add: nth_append)
  ultimately show ?thesis
    using assms(2)
    by (simp add: compute_grad_objective_def np_copy_def fold_update_upt np_empty_def)
qed

lemma compute_grad_objective_self:
  "self (compute_grad_objective p st x dx) = p"
  by (simp add: compute_grad_objective_def np_copy_def grad_objective_loop_self returns_def
      split: option.splits)

lemma compute_grad_objective_returns:
  "\<exists>g. ret (compute_grad_objective p st x dx) = Inr g"
  by (simp add: compute_grad_objective_def np_copy_def grad_objective_loop_returns returns_def
      split: option.splits)

lemma plus_unit_vector:
  "i < length v \<Longrightarrow> vec_add v (scale dx (unit_vector (length v) i)) = v[i := v ! i + dx]"
  by (rule nth_equalityI) (auto simp add: vec_add_def scale_def unit_vector_def nth_list_update)

lemma minus_unit_vector:
  "i < length v \<Longrightarrow> vec_sub v (scale dx (unit_vector (length v) i)) = v[i := v ! i - dx]"
  by (rule nth_equalityI) (auto simp add: vec_sub_def scale_def unit_vector_def nth_list_update)

lemma code_difference_spec:
  assumes "i < length v"
  shows "code_difference f v dx i = spec_central_difference f v dx i"
proof -
  have "v ! i - dx + 2 * dx = v ! i + dx"
    by (simp add: algebra_simps)
  with assms show ?thesis
    by (simp only: code_difference_def spec_central_difference_def plus_unit_vector
        minus_unit_vector)
qed

subsection \<open>Constraints\<close>

lemma compute_constraints_ret:
  assumes "m p + me p \<noteq> 0" "selection_ok p selection"
  shows "\<exists>g. ret (compute_constraints p st x selection) = Inr g"
  using assms
  by (auto simp add: selection_ok_def compute_constraints_None compute_constraints_Some
      returns_def raises_def split: option.splits sum.splits)

lemma grad_constraints_body_self:
  "self (grad_constraints_body p dx selection xl i st grad) = p"
  by (simp add: grad_constraints_body_def Let_def compute_constraints_frame returns_def raises_def
      split: sum.splits)



lemma grad_constraints_body_ok:
  assumes "m p + me p \<noteq> 0" "selection_ok p selection"
  shows "\<exists>g. ret (grad_constraints_body p dx selection xl i st grad) = Inr g"
proof -
  obtain g1 where
    g1: "ret (compute_constraints p (setitem st xl i (st ! xl ! i - dx)) xl selection) = Inr g1"
    using compute_constraints_ret [OF assms] by blast
  let ?st2 = "setitem (setitem st xl i (st ! xl ! i - dx)) xl i
        (setitem st xl i (st ! xl ! i - dx) ! xl ! i + 2 * dx)"
  obtain g2 where g2: "ret (compute_constraints p ?st2 xl selection) = Inr g2"
    using compute_constraints_ret [OF assms] by blast
  show ?thesis
    by (simp add: grad_constraints_body_def Let_def compute_constraints_frame g1 g2 returns_def)
qed

lemma grad_constraints_loop_self:
  "self (grad_constraints_loop p dx selection xl idx st grad) = p"
proof (induction idx arbitrary: st grad)
  case Nil
  then show ?case by (simp add: returns_def)
next
  case (Cons i rest)
  show ?case
  proof (cases "ret (grad_constraints_body p dx selection xl i st grad)")
    case (Inl e)
    then show ?thesis by (simp add: grad_constraints_body_self)
  next
    case (Inr g)
    then show ?thesis by (simp add: grad_constraints_body_self Cons.IH)
  qed
qed



lemma grad_constraints_loop_ok:
  assumes "m p + me p \<noteq> 0" "selection_ok p selection"
  shows "\<exists>g. ret (grad_constraints_loop p dx selection xl idx st grad) = Inr g"
proof (induction idx arbitrary: st grad)
  case Nil
  then show ?case by (simp add: returns_def)
next
  case (Cons i rest)
  obtain g' where "ret (grad_constraints_body p dx selection xl i st grad) = Inr g'"
    using grad_constraints_body_ok [OF assms] by blast
  with Cons.IH show ?case
    by (simp add: grad_constraints_body_self)
qed

text \<open>The three branches of \<open>compute_grad_constraints\<close>.\<close>

lemma compute_grad_constraints_numeric:
  assumes "numerical_path p"
  shows "compute_grad_constraints p st x dx selection =
     (let n = length (st ! x);
          grad = (case selection of
                    None \<Rightarrow> np_empty2 (m p + me p) n
                  | Some sel \<Rightarrow> np_empty2 (length sel) n);
          o1 = grad_constraints_loop p dx selection (length st) [0..<n] (st @ [st ! x]) grad
      in (case ret o1 of
            Inl e \<Rightarrow> o1
          | Inr g \<Rightarrow>
              returns g (heap o1)
                (p\<lparr> grad_constraints_evaluations := grad_constraints_evaluations p + 1 \<rparr>)))"
  using assms
  by (auto simp add: numerical_path_def compute_grad_constraints_def is_not_None_def np_copy_def
      Let_def grad_constraints_loop_self split: sum.splits)

lemma compute_grad_constraints_analytic:
  assumes "analytic_path p"
  shows "compute_grad_constraints p st x dx selection =
     (let grad_constraints =
            or_empty (p_grad_i_constraints p) @ or_empty (p_grad_e_constraints p) in
      (case selection of
         None \<Rightarrow>
           (case np_array2 (map (\<lambda>grad. grad (st ! x)) grad_constraints) of
              Inl e \<Rightarrow> raises e st p
            | Inr jac \<Rightarrow> returns jac st p)
       | Some sel \<Rightarrow>
           (case select grad_constraints sel of
              Inl e \<Rightarrow> raises e st p
            | Inr gs \<Rightarrow>
                (case np_array2 (map (\<lambda>grad. grad (st ! x)) gs) of
                   Inl e \<Rightarrow> raises e st p
                 | Inr jac \<Rightarrow> returns jac st p))))"
  using assms
  by (auto simp add: analytic_path_def compute_grad_constraints_def)

lemma compute_grad_constraints_analytic_frame:
  assumes "analytic_path p"
  shows "heap (compute_grad_constraints p st x dx selection) = st"
    and "self (compute_grad_constraints p st x dx selection) = p"
  by (simp_all add: compute_grad_constraints_analytic [OF assms] Let_def returns_def raises_def
      split: option.splits sum.splits)

lemma compute_grad_constraints_unconstrained:
  "m p + me p = 0 \<Longrightarrow>
   compute_grad_constraints p st x dx selection = raises UnconstrainedProblem st p"
  by (simp add: compute_grad_constraints_def)

text \<open>
  The numerical Jacobian in closed form: the row of a constraint holds its central
  differences, one per design variable. Every entry of the array from \<open>np_empty2\<close> is
  overwritten.
\<close>

lemma select_length: "select xs sel = Inr cs \<Longrightarrow> length cs = length sel"
  by (induction sel arbitrary: cs) (auto split: sum.splits)

lemma compute_constraints_selected:
  assumes "m p + me p \<noteq> 0" "selection_ok p selection"
  shows "compute_constraints p st x selection =
           returns (map (\<lambda>c. c (st ! x)) (selected_constraints p selection)) st p"
  using assms
  by (auto simp add: selection_ok_def selected_constraints_def compute_constraints_None
      compute_constraints_Some split: option.splits sum.splits)

lemma length_selected_constraints:
  assumes "selection_ok p selection"
  shows "length (selected_constraints p selection) =
           (case selection of None \<Rightarrow> m p + me p | Some sel \<Rightarrow> length sel)"
  using assms
  by (auto simp add: selection_ok_def selected_constraints_def m_def me_def select_length
      split: option.splits sum.splits)

lemma grad_constraints_body_eq:
  fixes dx :: "'a::field"
  assumes "m p + me p \<noteq> 0" "selection_ok p selection" "xl < length st" "i < length (st ! xl)"
  shows "grad_constraints_body p dx selection xl i st grad =
           returns (set_column grad i
                      (map (\<lambda>c. code_difference c (st ! xl) dx i) (selected_constraints p selection)))
             st p"
proof -
  have alg: "a - dx + 2 * dx - dx = a" for a :: 'a
    by (simp add: algebra_simps)
  have upd: "(st ! xl)[i := a] ! i = a" for a
    using assms(4) by simp
  have nth: "(st[xl := a]) ! xl = a" for a
    using assms(3) by simp
  have col: "map ((\<lambda>d. d / (2 * dx)) \<circ> (\<lambda>(a, b). a - b))
        (zip (map (\<lambda>c. c u) cs) (map (\<lambda>c. c w) cs)) =
      map (\<lambda>c. (c u - c w) / (2 * dx)) cs" for u w and cs :: "('a list \<Rightarrow> 'a) list"
    by (induction cs) simp_all
  show ?thesis
    by (simp add: grad_constraints_body_def Let_def compute_constraints_selected [OF assms(1,2)]
        returns_def setitem_def nth upd alg col code_difference_def)
qed

lemma grad_constraints_loop_eq:
  fixes dx :: "'a::field"
  assumes "m p + me p \<noteq> 0" "selection_ok p selection" "xl < length st"
    and "\<forall>i\<in>set idx. i < length (st ! xl)"
  shows "grad_constraints_loop p dx selection xl idx st grad =
           returns (fold (\<lambda>i G. set_column G i
                            (map (\<lambda>c. code_difference c (st ! xl) dx i)
                               (selected_constraints p selection))) idx grad)
             st p"
  using assms(4)
proof (induction idx arbitrary: grad)
  case Nil
  then show ?case by simp
next
  case (Cons i rest)
  then have "grad_constraints_body p dx selection xl i st grad =
      returns (set_column grad i
                 (map (\<lambda>c. code_difference c (st ! xl) dx i) (selected_constraints p selection)))
        st p"
    by (intro grad_constraints_body_eq assms) simp
  with Cons show ?case
    by (simp add: returns_def)
qed

lemma set_column_rows:
  assumes "length col = length G"
  shows "set_column G i col = map (\<lambda>r. (G ! r)[i := col ! r]) [0..<length G]"
  using assms by (auto simp add: set_column_def intro!: nth_equalityI)

lemma fold_set_column:
  assumes "\<forall>i\<in>set idx. length (cols i) = length G"
  shows "fold (\<lambda>i G. set_column G i (cols i)) idx G =
           map (\<lambda>r. fold (\<lambda>i row. row[i := cols i ! r]) idx (G ! r)) [0..<length G]"
  using assms
proof (induction idx arbitrary: G)
  case Nil
  then show ?case by (simp add: map_nth)
next
  case (Cons i rest)
  let ?G' = "set_column G i (cols i)"
  from Cons.prems have len: "length (cols i) = length G"
    by simp
  then have G': "?G' = map (\<lambda>r. (G ! r)[i := cols i ! r]) [0..<length G]"
    by (rule set_column_rows)
  then have len': "length ?G' = length G"
    by simp
  from Cons.prems len' have "\<forall>j\<in>set rest. length (cols j) = length ?G'"
    by simp
  then have "fold (\<lambda>i G. set_column G i (cols i)) rest ?G' =
      map (\<lambda>r. fold (\<lambda>i row. row[i := cols i ! r]) rest (?G' ! r)) [0..<length ?G']"
    by (rule Cons.IH)
  also have "\<dots> = map (\<lambda>r. fold (\<lambda>i row. row[i := cols i ! r]) (i # rest) (G ! r)) [0..<length G]"
    unfolding len' by (rule map_cong) (simp_all add: G')
  finally show ?case
    by simp
qed

lemma numerical_jacobian:
  fixes dx :: "'a::field"
  assumes "numerical_path p" "selection_ok p selection" "present st x"
  shows "compute_grad_constraints p st x dx selection =
           returns (map (\<lambda>c. map (\<lambda>j. spec_central_difference c (st ! x) dx j)
                               [0..<length (st ! x)])
                      (selected_constraints p selection))
             (st @ [st ! x])
             (p\<lparr> grad_constraints_evaluations := grad_constraints_evaluations p + 1 \<rparr>)"
proof -
  define n where "n = length (st ! x)"
  define sc where "sc = selected_constraints p selection"
  define grad :: "'a list list" where
    "grad = (case selection of
               None \<Rightarrow> np_empty2 (m p + me p) n
             | Some sel \<Rightarrow> np_empty2 (length sel) n)"
  define cols where "cols = (\<lambda>i. map (\<lambda>c. code_difference c (st ! x) dx i) sc)"
  from assms(1) have pos: "m p + me p \<noteq> 0"
    by (simp add: numerical_path_def)
  from assms(3) have x: "x < length st"
    by (simp add: present_def)
  have rows: "length grad = length sc"
    using length_selected_constraints [OF assms(2)]
    by (simp add: grad_def sc_def np_empty2_def split: option.splits)
  have row_len: "\<forall>r<length grad. length (grad ! r) = n"
    by (auto simp add: grad_def np_empty2_def split: option.splits)
  have loop: "grad_constraints_loop p dx selection (length st) [0..<n] (st @ [st ! x]) grad =
      returns (fold (\<lambda>i G. set_column G i (cols i)) [0..<n] grad) (st @ [st ! x]) p"
    using grad_constraints_loop_eq [OF pos assms(2), of "length st" "st @ [st ! x]" "[0..<n]" dx grad]
    by (simp add: n_def cols_def sc_def)
  have "fold (\<lambda>i G. set_column G i (cols i)) [0..<n] grad =
      map (\<lambda>r. fold (\<lambda>i row. row[i := cols i ! r]) [0..<n] (grad ! r)) [0..<length grad]"
    by (rule fold_set_column) (simp add: cols_def rows)
  also have "\<dots> = map (\<lambda>r. map (\<lambda>i. cols i ! r) [0..<n]) [0..<length grad]"
    using row_len by (intro map_cong refl fold_update_upt) simp
  also have "\<dots> = map (\<lambda>r. map (\<lambda>j. spec_central_difference (sc ! r) (st ! x) dx j) [0..<n])
      [0..<length sc]"
    unfolding rows by (intro map_cong refl) (simp_all add: cols_def code_difference_spec n_def)
  also have "\<dots> = map (\<lambda>c. map (\<lambda>j. spec_central_difference c (st ! x) dx j) [0..<n]) sc"
    by (rule nth_equalityI) simp_all
  finally have jac: "fold (\<lambda>i G. set_column G i (cols i)) [0..<n] grad =
      map (\<lambda>c. map (\<lambda>j. spec_central_difference c (st ! x) dx j) [0..<n]) sc" .
  show ?thesis
    by (simp add: compute_grad_constraints_numeric [OF assms(1)] Let_def loop jac returns_def
        flip: n_def grad_def sc_def)
qed

subsection \<open>Lagrange function\<close>

lemma compute_lagrange_function_self:
  "self (compute_lagrange_function p st x lm) = p"
  by (simp add: compute_lagrange_function_def Let_def compute_constraints_frame returns_def
      raises_def split: sum.splits)

lemma lagrange_loop_append:
  "lagrange_loop lm g (as @ bs) f =
     (case lagrange_loop lm g as f of Inl e \<Rightarrow> Inl e | Inr f' \<Rightarrow> lagrange_loop lm g bs f')"
  by (induction as arbitrary: f) (simp_all split: sum.splits)

lemma lagrange_loop_sum:
  assumes "k \<le> length lm" "k \<le> length g"
  shows "lagrange_loop lm g [0..<k] f = Inr (f + spec_weighted_sum lm g k)"
  using assms
proof (induction k)
  case 0
  then show ?case by (simp add: spec_weighted_sum_def)
next
  case (Suc k)
  then show ?case
    by (simp add: lagrange_loop_append getitem_def spec_weighted_sum_def add.assoc)
qed

lemma compute_lagrange_function_value:
  assumes "m p + me p \<le> length lm"
  shows "ret (compute_lagrange_function p st x lm) =
           Inr (p_objective p (st ! x) +
                spec_weighted_sum lm
                  (map (\<lambda>c. c (st ! x)) (or_empty (p_i_constraints p) @ or_empty (p_e_constraints p)))
                  (m p + me p))"
proof (cases "m p + me p = 0")
  case True
  then show ?thesis
    by (simp add: compute_lagrange_function_def returns_def spec_weighted_sum_def)
next
  case False
  define g where "g = map (\<lambda>c. c (st ! x)) (or_empty (p_i_constraints p) @ or_empty (p_e_constraints p))"
  have len: "length g = m p + me p"
    by (simp add: g_def m_def me_def)
  from False have cc: "compute_constraints p st x None = returns g st p"
    by (simp add: compute_constraints_None g_def)
  have "lagrange_loop lm g [0..<m p + me p] (p_objective p (st ! x)) =
      Inr (p_objective p (st ! x) + spec_weighted_sum lm g (m p + me p))"
    using assms len by (intro lagrange_loop_sum) simp_all
  with False have "ret (compute_lagrange_function p st x lm) =
      Inr (p_objective p (st ! x) + spec_weighted_sum lm g (m p + me p))"
    by (simp add: compute_lagrange_function_def cc returns_def)
  then show ?thesis
    unfolding g_def .
qed

lemma path_cases: "m p + me p = 0 \<or> analytic_path p \<or> numerical_path p"
  by (auto simp add: analytic_path_def numerical_path_def is_not_None_def split: option.splits)

lemma compute_grad_constraints_self:
  "self (compute_grad_constraints p st x dx selection) = p \<or>
   self (compute_grad_constraints p st x dx selection) =
     p\<lparr> grad_constraints_evaluations := grad_constraints_evaluations p + 1 \<rparr>"
proof -
  consider "m p + me p = 0" | "analytic_path p" | "numerical_path p"
    using path_cases [of p] by auto
  then show ?thesis
  proof cases
    case 1
    then show ?thesis
      by (simp add: compute_grad_constraints_unconstrained raises_def)
  next
    case 2
    then show ?thesis
      by (simp add: compute_grad_constraints_analytic_frame)
  next
    case 3
    then show ?thesis
      by (simp add: compute_grad_constraints_numeric Let_def returns_def
          grad_constraints_loop_self split: sum.splits)
  qed
qed

lemma compute_grad_constraints_counts:
  "m (self (compute_grad_constraints p st x dx selection)) = m p"
  "me (self (compute_grad_constraints p st x dx selection)) = me p"
  using compute_grad_constraints_self [of p st x dx selection]
  by (auto simp add: m_def me_def)

lemma grad_lagrange_loop_append:
  "grad_lagrange_loop lm jac (as @ bs) grad =
     (case grad_lagrange_loop lm jac as grad of
        Inl e \<Rightarrow> Inl e
      | Inr grad' \<Rightarrow> grad_lagrange_loop lm jac bs grad')"
  by (induction as arbitrary: grad) (simp_all split: sum.splits)

lemma grad_lagrange_loop_sum:
  assumes "k \<le> length lm" "k \<le> length jac" "\<forall>i<k. length (jac ! i) = length grad"
  shows "grad_lagrange_loop lm jac [0..<k] grad =
           Inr (map (\<lambda>j. grad ! j + (\<Sum>i\<leftarrow>[0..<k]. lm ! i * jac ! i ! j)) [0..<length grad])"
  using assms
proof (induction k)
  case 0
  then show ?case by (simp add: map_nth)
next
  case (Suc k)
  let ?g = "map (\<lambda>j. grad ! j + (\<Sum>i\<leftarrow>[0..<k]. lm ! i * jac ! i ! j)) [0..<length grad]"
  from Suc have IH: "grad_lagrange_loop lm jac [0..<k] grad = Inr ?g"
    by simp
  from Suc.prems have row: "length (jac ! k) = length grad"
    by simp
  have "vec_iadd ?g (map (\<lambda>v. lm ! k * v) (jac ! k)) =
      Inr (map (\<lambda>j. grad ! j + (\<Sum>i\<leftarrow>[0..<Suc k]. lm ! i * jac ! i ! j)) [0..<length grad])"
    using row by (auto simp add: vec_iadd_def add.assoc intro!: nth_equalityI)
  with Suc.prems IH show ?case
    by (simp add: grad_lagrange_loop_append getitem_def)
qed

lemma compute_grad_lagrange_function_value:
  assumes "ret (compute_grad_objective p st x default_dx) = Inr grad"
    and "ret (compute_grad_constraints p (heap (compute_grad_objective p st x default_dx)) x
           default_dx None) = Inr jac"
    and "0 < m p + me p" "length jac = m p + me p" "m p + me p \<le> length lm"
    and "\<forall>i<m p + me p. length (jac ! i) = length grad"
  shows "ret (compute_grad_lagrange_function p st x lm) =
           Inr (map (\<lambda>j. grad ! j + (\<Sum>i\<leftarrow>[0..<m p + me p]. lm ! i * jac ! i ! j))
                  [0..<length grad])"
proof -
  define o1 where "o1 = compute_grad_objective p st x default_dx"
  define o2 where "o2 = compute_grad_constraints p (heap o1) x default_dx None"
  have s1: "self o1 = p"
    unfolding o1_def by (rule compute_grad_objective_self)
  have s2: "m (self o2) + me (self o2) = m p + me p"
    unfolding o2_def by (simp add: compute_grad_constraints_counts)
  have r1: "ret o1 = Inr grad"
    using assms(1) by (simp add: o1_def)
  have r2: "ret (compute_grad_constraints (self o1) (heap o1) x default_dx None) = Inr jac"
    using assms(2) by (simp add: o1_def compute_grad_objective_self)
  have "grad_lagrange_loop lm jac [0..<m p + me p] grad =
      Inr (map (\<lambda>j. grad ! j + (\<Sum>i\<leftarrow>[0..<m p + me p]. lm ! i * jac ! i ! j))
             [0..<length grad])"
    using assms(4,5,6) by (intro grad_lagrange_loop_sum) simp_all
  with assms(3) r1 r2 s1 s2 show ?thesis
    by (simp add: compute_grad_lagrange_function_def Let_def returns_def o2_def
        flip: o1_def)
qed

section \<open>Gradient of the objective\<close>

lemma machine_grad_objective_body_self:
  "self (machine_grad_objective_body M p dx x xl i st grad) = p"
  by (simp add: machine_grad_objective_body_def Let_def compute_objective_simps returns_def
      raises_def split: sum.splits)











section \<open>Frame of the finite-difference paths\<close>



section \<open>The evaluation counter\<close>

text \<open>
  C4. \<open>grad_constraints_evaluations\<close> grows by exactly 1 in a call of
  \<open>compute_grad_constraints\<close> that takes the numerical path and returns normally (and such
  a call does return normally when the selection is absent or in range). It is unchanged,
  with the rest of the problem object, by a call that takes the analytic path, by a call
  that raises the unconstrained-problem error, and by \<open>compute_objective\<close>,
  \<open>compute_grad_objective\<close>, \<open>compute_constraints\<close> and \<open>compute_lagrange_function\<close>.
\<close>

theorem counter_increments:
  "(numerical_path p \<longrightarrow>
      (\<forall>g. ret (compute_grad_constraints p st x dx selection) = Inr g \<longrightarrow>
         self (compute_grad_constraints p st x dx selection) =
           p\<lparr> grad_constraints_evaluations := grad_constraints_evaluations p + 1 \<rparr> \<and>
         grad_constraints_evaluations (self (compute_grad_constraints p st x dx selection)) =
           grad_constraints_evaluations p + 1) \<and>
      (selection_ok p selection \<longrightarrow>
         (\<exists>g. ret (compute_grad_constraints p st x dx selection) = Inr g))) \<and>
   (analytic_path p \<longrightarrow> self (compute_grad_constraints p st x dx selection) = p) \<and>
   (m p + me p = 0 \<longrightarrow> self (compute_grad_constraints p st x dx selection) = p) \<and>
   self (compute_objective p st x) = p \<and>
   self (compute_grad_objective p st x dx) = p \<and>
   self (compute_constraints p st x selection) = p \<and>
   self (compute_lagrange_function p st x lm) = p"
proof (intro conjI impI allI)
  show "self (compute_objective p st x) = p"
    by (simp add: compute_objective_simps)
  show "self (compute_grad_objective p st x dx) = p"
    by (rule compute_grad_objective_self)
  show "self (compute_constraints p st x selection) = p"
    by (simp add: compute_constraints_frame)
  show "self (compute_lagrange_function p st x lm) = p"
    by (rule compute_lagrange_function_self)
next
  assume "analytic_path p"
  then show "self (compute_grad_constraints p st x dx selection) = p"
    by (rule compute_grad_constraints_analytic_frame)
next
  assume "m p + me p = 0"
  then show "self (compute_grad_constraints p st x dx selection) = p"
    by (simp add: compute_grad_constraints_unconstrained raises_def)
next
  fix g
  assume num: "numerical_path p"
    and r: "ret (compute_grad_constraints p st x dx selection) = Inr g"
  from r show s: "self (compute_grad_constraints p st x dx selection) =
      p\<lparr> grad_constraints_evaluations := grad_constraints_evaluations p + 1 \<rparr>"
    by (simp add: compute_grad_constraints_numeric [OF num] Let_def returns_def
        split: sum.splits)
  show "grad_constraints_evaluations (self (compute_grad_constraints p st x dx selection)) =
      grad_constraints_evaluations p + 1"
    by (simp add: s)
next
  assume num: "numerical_path p" and ok: "selection_ok p selection"
  from num have pos: "m p + me p \<noteq> 0"
    by (simp add: numerical_path_def)
  define grad :: "'a list list" where
    "grad = (case selection of
               None \<Rightarrow> np_empty2 (m p + me p) (length (st ! x))
             | Some sel \<Rightarrow> np_empty2 (length sel) (length (st ! x)))"
  obtain g where "ret (grad_constraints_loop p dx selection (length st) [0..<length (st ! x)]
      (st @ [st ! x]) grad) = Inr g"
    using grad_constraints_loop_ok [OF pos ok] by blast
  then show "\<exists>g. ret (compute_grad_constraints p st x dx selection) = Inr g"
    by (simp add: compute_grad_constraints_numeric [OF num] Let_def returns_def
        flip: grad_def)
qed

theorem counter_increments_witness:
  "numerical_path numeric_problem \<and>
   selection_ok numeric_problem None \<and>
   ret (compute_grad_constraints numeric_problem [[1, 2]] 0 (1 / 2) None) =
     Inr [[1, 1], [2, 4], [1, 0]] \<and>
   grad_constraints_evaluations
     (self (compute_grad_constraints numeric_problem [[1, 2]] 0 (1 / 2) None)) = 1 \<and>
   analytic_path analytic_problem \<and>
   grad_constraints_evaluations
     (self (compute_grad_constraints analytic_problem [[1, 2]] 0 (1 / 2) None)) = 0 \<and>
   m unconstrained_problem + me unconstrained_problem = 0 \<and>
   grad_constraints_evaluations
     (self (compute_grad_constraints unconstrained_problem [[1, 2]] 0 (1 / 2) None)) = 0"
proof -
  have num: "numerical_path numeric_problem"
    by (simp add: numerical_path_def numeric_problem_def m_def me_def or_empty_def)
  have ok: "selection_ok numeric_problem None"
    by (simp add: selection_ok_def)
  have ana: "analytic_path analytic_problem"
    by (simp add: analytic_path_def analytic_problem_def m_def me_def or_empty_def
        is_not_None_def)
  have unc: "m unconstrained_problem + me unconstrained_problem = 0"
    by (simp add: unconstrained_problem_def m_def me_def or_empty_def)
  have r: "ret (compute_grad_constraints numeric_problem [[1, 2]] 0 (1 / 2) None) =
      Inr [[1, 1], [2, 4], [1, 0]]"
    by (simp add: compute_grad_constraints_def numeric_problem_def method_defs np_empty2_def
        np_copy_def grad_constraints_body_def setitem_def set_column_def c_sum_def c_ball_def
        c_first_def sphere_def Let_def)
  have c0: "grad_constraints_evaluations numeric_problem = 0"
    "grad_constraints_evaluations analytic_problem = 0"
    "grad_constraints_evaluations unconstrained_problem = 0"
    by (simp_all add: numeric_problem_def analytic_problem_def unconstrained_problem_def)
  from counter_increments [of numeric_problem "[[1, 2]]" 0 "1 / 2" None] num r c0
  have n1: "grad_constraints_evaluations
     (self (compute_grad_constraints numeric_problem [[1, 2]] 0 (1 / 2) None)) = 1"
    by simp
  from counter_increments [of analytic_problem "[[1, 2]]" 0 "1 / 2" None] ana c0
  have a0: "grad_constraints_evaluations
     (self (compute_grad_constraints analytic_problem [[1, 2]] 0 (1 / 2) None)) = 0"
    by simp
  from counter_increments [of unconstrained_problem "[[1, 2]]" 0 "1 / 2" None] unc c0
  have u0: "grad_constraints_evaluations
     (self (compute_grad_constraints unconstrained_problem [[1, 2]] 0 (1 / 2) None)) = 0"
    by simp
  from num ok r n1 ana a0 unc u0 show ?thesis
    by blast
qed

section \<open>Lagrange function on an unconstrained problem\<close>

text \<open>
  C10. On a problem without constraints, \<open>compute_lagrange_function(x, lm)\<close> returns the
  objective value at \<open>x\<close>, and \<open>compute_grad_lagrange_function(x, lm)\<close> does exactly what
  \<open>compute_grad_objective(x)\<close> does (with the default step) and returns a value, for every
  \<open>x\<close> and every multiplier vector, the empty one included: the guard \<open>m + me > 0\<close> keeps
  both away from the constraint routines and their "Unconstrained problem." error.
\<close>

theorem unconstrained_lagrange:
  assumes "present st x" and "m p + me p = 0"
  shows "ret (compute_lagrange_function p st x lm) = Inr (p_objective p (st ! x)) \<and>
         ret (compute_lagrange_function p st x lm) = ret (compute_objective p st x) \<and>
         compute_grad_lagrange_function p st x lm = compute_grad_objective p st x default_dx \<and>
         (\<exists>g. ret (compute_grad_lagrange_function p st x lm) = Inr g)"
proof -
  from assms(2) have l: "ret (compute_lagrange_function p st x lm) = Inr (p_objective p (st ! x))"
    by (simp add: compute_lagrange_function_def returns_def)
  define o1 where "o1 = compute_grad_objective p st x default_dx"
  obtain g where g: "ret o1 = Inr g"
    unfolding o1_def using compute_grad_objective_returns by blast
  have s: "self o1 = p"
    unfolding o1_def by (rule compute_grad_objective_self)
  have "compute_grad_lagrange_function p st x lm = returns g (heap o1) (self o1)"
    using assms(2) g s by (simp add: compute_grad_lagrange_function_def Let_def flip: o1_def)
  also have "\<dots> = o1"
    using g by (simp add: returns_def)
  finally have e: "compute_grad_lagrange_function p st x lm = o1" .
  with l g show ?thesis
    by (simp add: compute_objective_simps o1_def)
qed

theorem unconstrained_lagrange_witness:
  "present [[1, 2 :: real]] 0 \<and>
   m unconstrained_problem + me unconstrained_problem = 0 \<and>
   ret (compute_lagrange_function unconstrained_problem [[1, 2]] 0 []) = Inr 5 \<and>
   ret (compute_grad_lagrange_function unconstrained_problem [[1, 2]] 0 []) =
     ret (compute_grad_objective unconstrained_problem [[1, 2]] 0 default_dx) \<and>
   ret (compute_grad_objective unconstrained_problem [[1, 2]] 0 default_dx) = Inr [2, 4]"
proof -
  have unc: "m unconstrained_problem + me unconstrained_problem = 0"
    by (simp add: unconstrained_problem_def m_def me_def or_empty_def)
  have f: "p_objective unconstrained_problem [1, 2] = 5"
    by (simp add: unconstrained_problem_def sphere_def)
  have g: "ret (compute_grad_objective unconstrained_problem [[1, 2]] 0 default_dx) = Inr [2, 4]"
    by (simp add: compute_grad_objective_def unconstrained_problem_def np_empty_def np_copy_def
        grad_objective_body_def compute_objective_def setitem_def returns_def sphere_def
        default_dx_def Let_def)
  have pr: "present [[1, 2 :: real]] 0"
    by (simp add: present_def)
  from unconstrained_lagrange [OF pr unc, of "[]"] f g unc pr show ?thesis
    by simp
qed

section \<open>Construction\<close>

text \<open>
  C7, as the specification states it, fails: \<open>__init__\<close> accepts two inequality constraints
  together with a single inequality gradient.
\<close>

theorem construction_accepts_mismatch:
  "length [c_sum, c_ball] = 2 \<and> length [grad_c_sum] = 1 \<and>
   \<not> isl (init sphere None None None (Some [c_sum, c_ball]) (Some [grad_c_sum]) None None None)"
  by (simp add: init_def)

text \<open>
  C7, amended. Constructing an \<open>OptimisationProblem\<close> validates nothing and never fails:
  whatever the arguments, lists of different lengths included, the result is a problem that
  holds every argument as it was given, with the evaluation counter at 0.
\<close>

theorem construction_never_fails:
  "\<exists>p. init objective grad_objective lower_bounds upper_bounds i_cons grad_i_cons e_cons
          grad_e_cons known_minima = Inr p \<and>
        p_objective p = objective \<and>
        p_grad_objective p = grad_objective \<and>
        p_i_constraints p = i_cons \<and>
        p_grad_i_constraints p = grad_i_cons \<and>
        p_e_constraints p = e_cons \<and>
        p_grad_e_constraints p = grad_e_cons \<and>
        lb p = lower_bounds \<and>
        ub p = upper_bounds \<and>
        minima p = known_minima \<and>
        grad_constraints_evaluations p = 0"
  by (simp add: init_def)

section \<open>Results are frozen\<close>

lemma attempt_on_frozen: "attempt_on r a = (Inl FrozenInstanceError, r)"
  by (cases a) (simp_all add: attempt_on_def setattr_def delattr_def)

lemma attempts_frozen:
  "attempts r as = (replicate (length as) (Inl FrozenInstanceError), r)"
  by (induction as) (simp_all add: attempt_on_frozen)

text \<open>
  C8. An \<open>OptimisationResult\<close> cannot be changed through its attributes: an assignment to
  (or a deletion of) any of the fields \<open>iteration\<close>, \<open>x\<close>, \<open>state\<close>, \<open>objective\<close>, \<open>lm\<close>,
  \<open>i_constraints\<close>, \<open>e_constraints\<close>, \<open>step\<close> raises and leaves the object as it was. So
  after any sequence of such attempts every attempt has raised, and the fields read from
  the object are the ones given at construction (for \<open>state\<close>, the default \<open>UNDEFINED\<close>
  when none was given).
\<close>

theorem result_frozen:
  "list_all (\<lambda>name. fst (setattr r name v) = Inl FrozenInstanceError \<and>
                     snd (setattr r name v) = r \<and>
                     fst (delattr r name) = Inl FrozenInstanceError \<and>
                     snd (delattr r name) = r) result_fields \<and>
   fst (attempts r as) = replicate (length as) (Inl FrozenInstanceError) \<and>
   snd (attempts r as) = r \<and>
   map (getattr (snd (attempts
          (new_result iteration x state_arg objective lm ic ec step) as))) result_fields =
     [Inr (IntV iteration), Inr (RefV x),
      Inr (StateV (case state_arg of None \<Rightarrow> UNDEFINED | Some s \<Rightarrow> s)),
      Inr (case objective of None \<Rightarrow> NoneV | Some f \<Rightarrow> FloatV f),
      Inr (opt_ref lm), Inr (opt_ref ic), Inr (opt_ref ec), Inr (opt_ref step)]"
  by (simp add: attempts_frozen setattr_def delattr_def getattr_def new_result_def
      result_fields_def)

theorem result_frozen_witness:
  "fst (attempts example_result
          [Assign ''x'' (RefV 7), Delete ''state'', Assign ''objective'' NoneV]) =
     [Inl FrozenInstanceError, Inl FrozenInstanceError, Inl FrozenInstanceError] \<and>
   map (getattr (snd (attempts example_result
          [Assign ''x'' (RefV 7), Delete ''state'', Assign ''objective'' NoneV]))) result_fields =
     [Inr (IntV 3), Inr (RefV 0), Inr (StateV RUNNING), Inr (FloatV 5), Inr NoneV,
      Inr (RefV 1), Inr NoneV, Inr NoneV]"
proof -
  define tries :: "real attempt list" where
    "tries = [Assign ''x'' (RefV 7), Delete ''state'', Assign ''objective'' NoneV]"
  note frozen = result_frozen [where r = example_result and v = NoneV and as = tries
      and iteration = 3 and x = 0 and state_arg = "Some RUNNING" and objective = "Some 5"
      and lm = None and ic = "Some 1" and ec = None and step = None]
  have "fst (attempts example_result tries) =
      replicate (length tries) (Inl FrozenInstanceError)"
    by (rule frozen [THEN conjunct2, THEN conjunct1])
  then have outcomes: "fst (attempts example_result tries) =
      [Inl FrozenInstanceError, Inl FrozenInstanceError, Inl FrozenInstanceError]"
    by (simp add: tries_def)
  have "map (getattr (snd (attempts
        (new_result 3 0 (Some RUNNING) (Some 5) None (Some 1) None None) tries))) result_fields =
      [Inr (IntV 3), Inr (RefV 0),
       Inr (StateV (case Some RUNNING of None \<Rightarrow> UNDEFINED | Some s \<Rightarrow> s)),
       Inr (case Some (5 :: real) of None \<Rightarrow> NoneV | Some f \<Rightarrow> FloatV f),
       Inr (opt_ref None), Inr (opt_ref (Some 1)), Inr (opt_ref None), Inr (opt_ref None)]"
    by (rule frozen [THEN conjunct2, THEN conjunct2, THEN conjunct2])
  then have fields: "map (getattr (snd (attempts example_result tries))) result_fields =
      [Inr (IntV 3), Inr (RefV 0), Inr (StateV RUNNING), Inr (FloatV 5), Inr NoneV,
       Inr (RefV 1), Inr NoneV, Inr NoneV]"
    by (simp only: example_result_def opt_ref_def option.case)
  from outcomes fields show ?thesis
    unfolding tries_def by (rule conjI)
qed

section \<open>Analytic constraint gradients supplied for one kind of constraint only\<close>

text \<open>
  What the analytic path returns: one row per supplied gradient callable, the inequality
  gradients first. That is one row per constraint exactly when the two gradient lists
  together are as long as the two constraint lists together.
\<close>

lemma analytic_jacobian:
  assumes "analytic_path p"
    and "np_array2 (map (\<lambda>grad. grad (st ! x))
           (or_empty (p_grad_i_constraints p) @ or_empty (p_grad_e_constraints p))) = Inr jac"
  shows "compute_grad_constraints p st x dx None = returns jac st p"
    and "length jac = length (or_empty (p_grad_i_constraints p)) +
           length (or_empty (p_grad_e_constraints p))"
proof -
  from assms(2) show "compute_grad_constraints p st x dx None = returns jac st p"
    by (simp add: compute_grad_constraints_analytic [OF assms(1)])
  from assms(2) have "jac = map (\<lambda>grad. grad (st ! x))
      (or_empty (p_grad_i_constraints p) @ or_empty (p_grad_e_constraints p))"
    by (simp add: np_array2_def split: if_splits)
  then show "length jac = length (or_empty (p_grad_i_constraints p)) +
      length (or_empty (p_grad_e_constraints p))"
    by simp
qed

text \<open>
  C1 at the problem with one inequality (gradient supplied) and one equality (no gradient):
  the problem has two constraints and takes the analytic path, the Jacobian has a single
  row, and the selection \<open>[1]\<close>, a valid constraint index, raises \<^verbatim>\<open>IndexError\<close>.
\<close>

theorem partial_gradients_jacobian:
  "m partial_problem + me partial_problem = 2 \<and>
   analytic_path partial_problem \<and>
   ret (compute_constraints partial_problem [[1, 2]] 0 None) = Inr [2, 1] \<and>
   ret (compute_grad_constraints partial_problem [[1, 2]] 0 (1 / 2) None) = Inr [[1, 1]] \<and>
   ret (compute_constraints partial_problem [[1, 2]] 0 (Some [1])) = Inr [1] \<and>
   ret (compute_grad_constraints partial_problem [[1, 2]] 0 (1 / 2) (Some [1])) = Inl IndexError"
  by (simp add: analytic_path_def compute_grad_constraints_def partial_problem_def method_defs
      np_array2_def c_sum_def grad_c_sum_def c_first_def)

section \<open>Lagrange function and its gradient\<close>

text \<open>
  Where the Jacobian has a row for every constraint the gradient of the Lagrange function
  is the objective gradient plus the weighted rows (\<open>compute_grad_lagrange_function_value\<close>
  above); the numerical path delivers such a Jacobian, so there the gradient is as the
  specification describes it. The value of the Lagrange function is the objective plus the
  weighted constraint values on every problem (\<open>compute_lagrange_function_value\<close>).
\<close>

lemma compute_grad_lagrange_function_numerical:
  fixes lm :: "'a::field list"
  assumes "numerical_path p" "p_grad_objective p = None" "present st x"
    and "m p + me p \<le> length lm"
  shows "ret (compute_grad_lagrange_function p st x lm) =
     Inr (map (\<lambda>j. spec_central_difference (p_objective p) (st ! x) default_dx j +
                   (\<Sum>i\<leftarrow>[0..<m p + me p].
                      lm ! i *
                      spec_central_difference
                        ((or_empty (p_i_constraints p) @ or_empty (p_e_constraints p)) ! i)
                        (st ! x) default_dx j))
            [0..<length (st ! x)])"
proof -
  define n where "n = length (st ! x)"
  define cs where "cs = or_empty (p_i_constraints p) @ or_empty (p_e_constraints p)"
  define grad where "grad = map (spec_central_difference (p_objective p) (st ! x) default_dx) [0..<n]"
  define jac where
    "jac = map (\<lambda>c. map (\<lambda>j. spec_central_difference c (st ! x) default_dx j) [0..<n]) cs"
  have len_cs: "length cs = m p + me p"
    by (simp add: cs_def m_def me_def)
  from assms(3) have x: "x < length st"
    by (simp add: present_def)
  have "map (code_difference (p_objective p) (st ! x) default_dx) [0..<n] = grad"
    unfolding grad_def by (rule map_cong) (simp_all add: code_difference_spec n_def)
  then have o1: "compute_grad_objective p st x default_dx = returns grad (st @ [st ! x]) p"
    by (simp add: compute_grad_objective_numeric [OF assms(3,2)] n_def)
  have x': "present (st @ [st ! x]) x" "(st @ [st ! x]) ! x = st ! x"
    using x by (simp_all add: present_def nth_append)
  have ok: "selection_ok p None"
    by (simp add: selection_ok_def)
  have "ret (compute_grad_constraints p (st @ [st ! x]) x default_dx None) = Inr jac"
    using numerical_jacobian [OF assms(1) ok x'(1), of default_dx]
    by (simp add: x'(2) returns_def selected_constraints_def jac_def cs_def n_def)
  then have o2: "ret (compute_grad_constraints p (heap (compute_grad_objective p st x default_dx))
      x default_dx None) = Inr jac"
    by (simp add: o1 returns_def)
  have r1: "ret (compute_grad_objective p st x default_dx) = Inr grad"
    by (simp add: o1 returns_def)
  from assms(1) have pos: "0 < m p + me p"
    by (simp add: numerical_path_def)
  have rows: "length jac = m p + me p" "\<forall>i<m p + me p. length (jac ! i) = length grad"
    by (simp_all add: jac_def grad_def len_cs)
  have "ret (compute_grad_lagrange_function p st x lm) =
      Inr (map (\<lambda>j. grad ! j + (\<Sum>i\<leftarrow>[0..<m p + me p]. lm ! i * jac ! i ! j))
             [0..<length grad])"
    by (rule compute_grad_lagrange_function_value [OF r1 o2 pos rows(1) assms(4) rows(2)])
  also have "map (\<lambda>j. grad ! j + (\<Sum>i\<leftarrow>[0..<m p + me p]. lm ! i * jac ! i ! j))
        [0..<length grad] =
      map (\<lambda>j. spec_central_difference (p_objective p) (st ! x) default_dx j +
             (\<Sum>i\<leftarrow>[0..<m p + me p].
                lm ! i * spec_central_difference (cs ! i) (st ! x) default_dx j)) [0..<n]"
  proof (rule map_cong)
    show "[0..<length grad] = [0..<n]"
      by (simp add: grad_def)
  next
    fix j assume "j \<in> set [0..<n]"
    then have j: "j < n" by simp
    have "(\<Sum>i\<leftarrow>[0..<m p + me p]. lm ! i * jac ! i ! j) =
        (\<Sum>i\<leftarrow>[0..<m p + me p]. lm ! i * spec_central_difference (cs ! i) (st ! x) default_dx j)"
      by (rule arg_cong [where f = sum_list], rule map_cong)
        (use j in \<open>simp_all add: jac_def len_cs\<close>)
    with j show "grad ! j + (\<Sum>i\<leftarrow>[0..<m p + me p]. lm ! i * jac ! i ! j) =
        spec_central_difference (p_objective p) (st ! x) default_dx j +
        (\<Sum>i\<leftarrow>[0..<m p + me p]. lm ! i * spec_central_difference (cs ! i) (st ! x) default_dx j)"
      by (simp add: grad_def)
  qed
  finally show ?thesis
    by (simp add: cs_def n_def)
qed

text \<open>
  C6 at the same problem, with two multipliers: the Lagrange function is the objective plus
  the weighted constraint values, while its gradient raises \<^verbatim>\<open>IndexError\<close> at the second
  constraint, whose row the Jacobian does not have.
\<close>

theorem partial_gradients_lagrange:
  "m partial_problem + me partial_problem = length [1, 1 :: real] \<and>
   ret (compute_lagrange_function partial_problem [[1, 2]] 0 [1, 1]) = Inr 8 \<and>
   ret (compute_grad_objective partial_problem [[1, 2]] 0 default_dx) = Inr [2, 4] \<and>
   ret (compute_grad_lagrange_function partial_problem [[1, 2]] 0 [1, 1]) = Inl IndexError"
proof -
  have g: "compute_grad_objective partial_problem [[1, 2]] 0 default_dx =
      returns [2, 4] [[1, 2], [1, 2]] partial_problem"
    by (simp add: compute_grad_objective_def partial_problem_def np_empty_def np_copy_def
        grad_objective_body_def compute_objective_def setitem_def returns_def sphere_def
        default_dx_def Let_def)
  have j: "compute_grad_constraints partial_problem [[1, 2], [1, 2]] 0 default_dx None =
      returns [[1, 1]] [[1, 2], [1, 2]] partial_problem"
    by (simp add: compute_grad_constraints_def partial_problem_def method_defs np_array2_def
        grad_c_sum_def)
  have mm: "m partial_problem + me partial_problem = 2"
    by (simp add: partial_problem_def method_defs)
  have idx: "[0..<2] = [0, Suc 0]"
    by (simp add: numeral_2_eq_2)
  have "ret (compute_grad_lagrange_function partial_problem [[1, 2]] 0 [1, 1]) = Inl IndexError"
    by (simp add: compute_grad_lagrange_function_def g j mm idx returns_def raises_def
        getitem_def vec_iadd_def Let_def)
  moreover have "ret (compute_lagrange_function partial_problem [[1, 2]] 0 [1, 1]) = Inr 8"
    by (simp add: compute_lagrange_function_def compute_constraints_frame mm idx
        compute_constraints_None returns_def getitem_def)
      (simp add: partial_problem_def or_empty_def sphere_def c_sum_def c_first_def)
  ultimately show ?thesis
    using g mm by (simp add: returns_def)
qed

end
